theory Spec2Isabelle
  imports Main "HOL-Library.Word"
begin

section \<open>Nearest-neighbour upsampling converters (core/conversion/converters/impl/interpolate.cpp)\<close>

text \<open>
  The file registers three converters, for \<^verbatim>\<open>aten::upsample_nearest1d\<close>,
  \<^verbatim>\<open>aten::upsample_nearest2d\<close> and \<^verbatim>\<open>aten::upsample_nearest3d\<close>. Each is a
  lambda \<^verbatim>\<open>(ConversionCtx* ctx, const torch::jit::Node* n, args& args) -> bool\<close> that
  mutates the network owned by the context and may throw. A converter is embedded as a
  function from the context to the context it leaves behind together with either the
  error thrown or the boolean returned, so that the layers added before a throw stay
  visible. \<^verbatim>\<open>LOG_DEBUG\<close> only writes to the log and is left out.
\<close>

subsection \<open>Errors\<close>

datatype error =
    AssertError string  \<comment> \<open>\<^verbatim>\<open>TRTORCH_ASSERT\<close> failed, with its message\<close>
  | CheckError string   \<comment> \<open>\<^verbatim>\<open>TRTORCH_CHECK\<close> failed, with its message\<close>
  | DimsDomain          \<comment> \<open>a shape conversion outside its rank domain\<close>
  | NotITensor          \<comment> \<open>\<^verbatim>\<open>ITensor()\<close> on an operand that holds no tensor\<close>
  | NotIValue           \<comment> \<open>\<^verbatim>\<open>IValue()\<close> on an operand that holds no literal\<close>
  | NotIntList          \<comment> \<open>\<^verbatim>\<open>unwrapToIntList()\<close> on something else than an integer list\<close>
  | OutOfRange          \<comment> \<open>an index outside its container (undefined in C++)\<close>
  | CopyOverrun         \<comment> \<open>\<^verbatim>\<open>std::copy\<close> writing outside its destination (undefined in C++)\<close>
  | NullLayer           \<comment> \<open>a member call through a null layer pointer (undefined in C++)\<close>

subsection \<open>Shapes\<close>

text \<open>
  Modelled from the spec: \<^verbatim>\<open>nvinfer1::Dims\<close>, \<^verbatim>\<open>util::toVec\<close> and \<^verbatim>\<open>util::toDims\<close>
  are declared in core/util, which is not part of the sources at hand. The spec (3, 4.1)
  makes them lossless, order-preserving conversions that are mutual inverses on ranks
  between zero and the backend's maximum supported rank, and makes a rank outside that
  domain a fault that is not recovered. A native shape holds its rank and its entries;
  it is valid when the rank lies in that domain and counts the entries. The maximum rank
  is a parameter, and entries are unbounded integers: the spec lets no conversion lose
  numeric information.
\<close>

record Dims =
  nbDims :: int
  d :: "int list"

definition valid_Dims :: "nat \<Rightarrow> Dims \<Rightarrow> bool" where
  "valid_Dims maxd x \<longleftrightarrow>
     0 \<le> nbDims x \<and> nbDims x \<le> int maxd \<and> int (length (d x)) = nbDims x"

definition toVec :: "nat \<Rightarrow> Dims \<Rightarrow> error + int list" where
  "toVec maxd x =
     (if valid_Dims maxd x then Inr (take (nat (nbDims x)) (d x)) else Inl DimsDomain)"

definition toDims :: "nat \<Rightarrow> int list \<Rightarrow> error + Dims" where
  "toDims maxd l =
     (if length l \<le> maxd then Inr \<lparr>nbDims = int (length l), d = l\<rparr> else Inl DimsDomain)"

subsection \<open>The intermediate representation: nodes, literals, operands\<close>

type_synonym Value = nat

text \<open>
  \<^verbatim>\<open>util::node_info(n)\<close> and the printed form \<^verbatim>\<open>*n\<close> are functions of the node that
  live outside this file; the node carries both texts.
\<close>

record Node =
  node_info :: string
  node_print :: string
  outputs :: "Value list"

datatype IValue = INone | IIntList "int list" | IDouble "64 word"

definition isNone :: "IValue \<Rightarrow> bool" where
  "isNone v \<longleftrightarrow> v = INone"

subsection \<open>The backend network\<close>

datatype ResizeMode = kNEAREST | kLINEAR

datatype LayerType = kSHUFFLE | kRESIZE

text \<open>
  A tensor handle is either a tensor that is already in the network, with the shape the
  backend reports for it, or output \<open>k\<close> of the layer at position \<open>i\<close> of the network.
\<close>

datatype ITensor = NetworkTensor nat Dims | LayerOutput nat nat

text \<open>
  A layer records its kind, its input and what the setters have stored; a field that no
  setter has touched is \<open>None\<close> (the backend's default, which this file never reads).
\<close>

record ILayer =
  ltype :: LayerType
  linput :: ITensor
  ldims :: "Dims option"
  lmode :: "ResizeMode option"
  lname :: "string option"

record ConversionCtx =
  net :: "ILayer list"
  value_tensor_map :: "(Value \<times> ITensor) list"

text \<open>
  What the sources at hand use but do not define: the backend's maximum rank
  (\<^verbatim>\<open>nvinfer1::Dims::MAX_DIMS\<close>), the printer \<^verbatim>\<open>util::toStr\<close> of a shape, and
  whether the backend creates a layer of a given kind on a given tensor or answers with
  a null pointer.
\<close>

record backend =
  MAX_DIMS :: nat
  toStr :: "Dims \<Rightarrow> string"
  creates :: "LayerType \<Rightarrow> ILayer list \<Rightarrow> ITensor \<Rightarrow> bool"

definition unknown_Dims :: Dims where
  "unknown_Dims = \<lparr>nbDims = - 1, d = []\<rparr>"

text \<open>
  Modelled from the spec: \<^verbatim>\<open>ITensor::getDimensions\<close> belongs to the backend. The spec
  (6) has a reshape layer and a resize layer each built from a tensor and a target shape,
  so the output of such a layer has the target shape stored on it; a shape the backend
  cannot tell has rank \<open>-1\<close>.
\<close>

fun getDimensions :: "ILayer list \<Rightarrow> ITensor \<Rightarrow> Dims" where
  "getDimensions ls (NetworkTensor i x) = x"
| "getDimensions ls (LayerOutput i k) =
     (if i < length ls \<and> k = 0
      then (case ldims (ls ! i) of Some x \<Rightarrow> x | None \<Rightarrow> unknown_Dims)
      else unknown_Dims)"

subsection \<open>Operands\<close>

text \<open>
  Modelled from the spec: the operand class \<^verbatim>\<open>Var\<close> (the element type of \<^verbatim>\<open>args\<close>) is
  declared in core/conversion/var. The spec (3, 4.2) gives an operand a tensor facet and a
  literal facet, makes reading the wrong facet a programming error, and makes a typed
  unwrap fail when the literal is not of the requested type.
\<close>

datatype Var = VarITensor ITensor | VarIValue IValue | VarNone

definition Var_ITensor :: "Var \<Rightarrow> error + ITensor" where
  "Var_ITensor v = (case v of VarITensor t \<Rightarrow> Inr t | _ \<Rightarrow> Inl NotITensor)"

definition Var_IValue :: "Var \<Rightarrow> error + IValue" where
  "Var_IValue v = (case v of VarIValue i \<Rightarrow> Inr i | _ \<Rightarrow> Inl NotIValue)"

definition unwrapToIntList :: "Var \<Rightarrow> error + int list" where
  "unwrapToIntList v = (case v of VarIValue (IIntList l) \<Rightarrow> Inr l | _ \<Rightarrow> Inl NotIntList)"

text \<open>\<^verbatim>\<open>args[i]\<close> on a \<^verbatim>\<open>std::vector\<close>: undefined outside the vector.\<close>

definition args_at :: "Var list \<Rightarrow> nat \<Rightarrow> error + Var" where
  "args_at args i = (if i < length args then Inr (args ! i) else Inl OutOfRange)"

text \<open>\<^verbatim>\<open>n->outputs()[i]\<close>.\<close>

definition outputs_at :: "Node \<Rightarrow> nat \<Rightarrow> error + Value" where
  "outputs_at n i = (if i < length (outputs n) then Inr (outputs n ! i) else Inl OutOfRange)"

subsection \<open>Sequencing: state and exceptions\<close>

type_synonym 'a conv = "ConversionCtx \<Rightarrow> ConversionCtx \<times> (error + 'a)"

definition ret :: "'a \<Rightarrow> 'a conv" where
  "ret x ctx = (ctx, Inr x)"

definition throw :: "error \<Rightarrow> 'a conv" where
  "throw e ctx = (ctx, Inl e)"

definition lift :: "error + 'a \<Rightarrow> 'a conv" where
  "lift r ctx = (ctx, r)"

definition bnd :: "'a conv \<Rightarrow> ('a \<Rightarrow> 'b conv) \<Rightarrow> 'b conv" where
  "bnd m f ctx =
     (case m ctx of
        (ctx', Inl e) \<Rightarrow> (ctx', Inl e)
      | (ctx', Inr x) \<Rightarrow> f x ctx')"

definition bindE :: "error + 'a \<Rightarrow> ('a \<Rightarrow> error + 'b) \<Rightarrow> error + 'b" where
  "bindE r f = (case r of Inl e \<Rightarrow> Inl e | Inr x \<Rightarrow> f x)"

text \<open>\<^verbatim>\<open>TRTORCH_ASSERT(cond, msg)\<close> and \<^verbatim>\<open>TRTORCH_CHECK(cond, msg)\<close> throw when the
  condition is false.\<close>

definition TRTORCH_ASSERT :: "bool \<Rightarrow> string \<Rightarrow> unit conv" where
  "TRTORCH_ASSERT c msg = (if c then ret () else throw (AssertError msg))"

definition TRTORCH_CHECK :: "bool \<Rightarrow> string \<Rightarrow> unit conv" where
  "TRTORCH_CHECK c msg = (if c then ret () else throw (CheckError msg))"

subsection \<open>The calls into the context and the network\<close>

definition new_layer :: "LayerType \<Rightarrow> ITensor \<Rightarrow> ILayer" where
  "new_layer ty t = \<lparr>ltype = ty, linput = t, ldims = None, lmode = None, lname = None\<rparr>"

text \<open>\<^verbatim>\<open>ctx->net->addShuffle(*in)\<close> and \<^verbatim>\<open>ctx->net->addResize(*in)\<close>: the new layer is
  appended and its position is the handle; \<open>None\<close> is the null pointer.\<close>

definition addLayer :: "backend \<Rightarrow> LayerType \<Rightarrow> ITensor \<Rightarrow> nat option conv" where
  "addLayer B ty t ctx =
     (if creates B ty (net ctx) t
      then (ctx\<lparr>net := net ctx @ [new_layer ty t]\<rparr>, Inr (Some (length (net ctx))))
      else (ctx, Inr None))"

definition addShuffle :: "backend \<Rightarrow> ITensor \<Rightarrow> nat option conv" where
  "addShuffle B t = addLayer B kSHUFFLE t"

definition addResize :: "backend \<Rightarrow> ITensor \<Rightarrow> nat option conv" where
  "addResize B t = addLayer B kRESIZE t"

text \<open>A setter called through a layer pointer; through the null pointer it is undefined.\<close>

definition on_layer :: "nat option \<Rightarrow> (ILayer \<Rightarrow> ILayer) \<Rightarrow> unit conv" where
  "on_layer l f ctx =
     (case l of
        None \<Rightarrow> (ctx, Inl NullLayer)
      | Some i \<Rightarrow>
          if i < length (net ctx)
          then (ctx\<lparr>net := (net ctx)[i := f (net ctx ! i)]\<rparr>, Inr ())
          else (ctx, Inl OutOfRange))"

definition setReshapeDimensions :: "nat option \<Rightarrow> Dims \<Rightarrow> unit conv" where
  "setReshapeDimensions l x = on_layer l (\<lambda>y. y\<lparr>ldims := Some x\<rparr>)"

definition setOutputDimensions :: "nat option \<Rightarrow> Dims \<Rightarrow> unit conv" where
  "setOutputDimensions l x = on_layer l (\<lambda>y. y\<lparr>ldims := Some x\<rparr>)"

definition setResizeMode :: "nat option \<Rightarrow> ResizeMode \<Rightarrow> unit conv" where
  "setResizeMode l m = on_layer l (\<lambda>y. y\<lparr>lmode := Some m\<rparr>)"

definition setName :: "nat option \<Rightarrow> string \<Rightarrow> unit conv" where
  "setName l s = on_layer l (\<lambda>y. y\<lparr>lname := Some s\<rparr>)"

definition getOutput :: "nat option \<Rightarrow> nat \<Rightarrow> ITensor conv" where
  "getOutput l k ctx =
     (case l of None \<Rightarrow> (ctx, Inl NullLayer) | Some i \<Rightarrow> (ctx, Inr (LayerOutput i k)))"

text \<open>
  Modelled from the spec: \<^verbatim>\<open>ConversionCtx::AssociateValueAndTensor\<close> is defined in
  core/conversion/conversionctx. The spec (4.3) has it record the mapping and return the
  handle unchanged. The mapping is kept as an association list with the newest entry
  first, so that each call leaves one entry.
\<close>

definition AssociateValueAndTensor :: "Value \<Rightarrow> ITensor \<Rightarrow> ITensor conv" where
  "AssociateValueAndTensor v t ctx =
     (ctx\<lparr>value_tensor_map := (v, t) # value_tensor_map ctx\<rparr>, Inr t)"

definition lookup_tensor :: "ConversionCtx \<Rightarrow> Value \<Rightarrow> ITensor option" where
  "lookup_tensor ctx v = map_of (value_tensor_map ctx) v"

text \<open>\<^verbatim>\<open>in->getDimensions()\<close> reads the shape from the network in its current state.\<close>

definition getDimensions_of :: "ITensor \<Rightarrow> Dims conv" where
  "getDimensions_of t ctx = (ctx, Inr (getDimensions (net ctx) t))"

subsection \<open>The copy of the output size into the output shape\<close>

text \<open>
  \<^verbatim>\<open>in_shape.size() - out_size.size()\<close> is a subtraction of two \<^verbatim>\<open>size_t\<close>: when the
  second is the larger, the difference wraps around \<open>2^64\<close>.
\<close>

definition size_sub :: "nat \<Rightarrow> nat \<Rightarrow> nat" where
  "size_sub a b = (if b \<le> a then a - b else 2 ^ 64 - (b - a))"

text \<open>
  \<^verbatim>\<open>std::copy(src.begin(), src.end(), dst.begin() + off)\<close>: the elements of \<open>src\<close>
  overwrite \<open>dst\<close> from position \<open>off\<close> on. Writing outside \<open>dst\<close> is undefined in C++,
  and an error here.
\<close>

definition std_copy :: "int list \<Rightarrow> int list \<Rightarrow> nat \<Rightarrow> error + int list" where
  "std_copy src dst off =
     (if off + length src \<le> length dst
      then Inr (take off dst @ src @ drop (off + length src) dst)
      else Inl CopyOverrun)"

subsection \<open>The converters\<close>

definition upsample_nearest1d :: "backend \<Rightarrow> Node \<Rightarrow> Var list \<Rightarrow> bool conv" where
  "upsample_nearest1d B n args =
     bnd (lift (bindE (args_at args 0) Var_ITensor)) (\<lambda>in0.
     bnd (getDimensions_of in0) (\<lambda>dims0.
     bnd (lift (toVec (MAX_DIMS B) dims0)) (\<lambda>in_shape0.
     bnd (if length in_shape0 \<ge> 4
          then
            (let in_shape = tl in_shape0 in
             bnd (addShuffle B in0) (\<lambda>shuffle.
             bnd (lift (toDims (MAX_DIMS B) in_shape)) (\<lambda>x.
             bnd (setReshapeDimensions shuffle x) (\<lambda>_.
             bnd (lift (toDims (MAX_DIMS B) in_shape)) (\<lambda>y.
             bnd (setName shuffle (node_info n @ '' [Reshape to '' @ toStr B y @ '']'')) (\<lambda>_.
             bnd (getOutput shuffle 0) (\<lambda>in1.
             ret (in1, in_shape))))))))
          else ret (in0, in_shape0)) (\<lambda>(in1, in_shape).
     bnd (lift (bindE (args_at args 1) Var_IValue)) (\<lambda>a1.
     bnd (if \<not> isNone a1
          then bnd (lift (bindE (args_at args 2) Var_IValue)) (\<lambda>a2. ret (isNone a2))
          else ret False) (\<lambda>case1.
     if case1
     then
       bnd (lift (bindE (args_at args 1) unwrapToIntList)) (\<lambda>l.
       bnd (lift (bindE (toDims (MAX_DIMS B) l) (toVec (MAX_DIMS B)))) (\<lambda>out_size.
       bnd (TRTORCH_ASSERT (length out_size = 1)
              ''aten::upsample_nearest1d input Tensor and output size dimension mismatch'') (\<lambda>_.
       bnd (lift (std_copy out_size in_shape
              (size_sub (length in_shape) (length out_size)))) (\<lambda>out_shape.
       bnd (addResize B in1) (\<lambda>resize_layer.
       bnd (TRTORCH_CHECK (resize_layer \<noteq> None)
              (''Unable to create interpolation (resizing) layer from node'' @ node_print n)) (\<lambda>_.
       bnd (lift (toDims (MAX_DIMS B) out_shape)) (\<lambda>x.
       bnd (setOutputDimensions resize_layer x) (\<lambda>_.
       bnd (setResizeMode resize_layer kNEAREST) (\<lambda>_.
       bnd (setName resize_layer (node_info n)) (\<lambda>_.
       bnd (lift (outputs_at n 0)) (\<lambda>v.
       bnd (getOutput resize_layer 0) (\<lambda>t.
       bnd (AssociateValueAndTensor v t) (\<lambda>layer_output.
       ret True)))))))))))))
     else ret True))))))"

definition upsample_nearest2d :: "backend \<Rightarrow> Node \<Rightarrow> Var list \<Rightarrow> bool conv" where
  "upsample_nearest2d B n args =
     bnd (lift (bindE (args_at args 0) Var_ITensor)) (\<lambda>in0.
     bnd (getDimensions_of in0) (\<lambda>dims0.
     bnd (lift (toVec (MAX_DIMS B) dims0)) (\<lambda>in_shape.
     bnd (lift (bindE (args_at args 1) Var_IValue)) (\<lambda>a1.
     bnd (if \<not> isNone a1
          then bnd (lift (bindE (args_at args 2) Var_IValue)) (\<lambda>a2.
               if isNone a2
               then bnd (lift (bindE (args_at args 3) Var_IValue)) (\<lambda>a3. ret (isNone a3))
               else ret False)
          else ret False) (\<lambda>case1.
     if case1
     then
       bnd (lift (bindE (args_at args 1) unwrapToIntList)) (\<lambda>l.
       bnd (lift (bindE (toDims (MAX_DIMS B) l) (toVec (MAX_DIMS B)))) (\<lambda>out_size.
       bnd (TRTORCH_ASSERT (length out_size = 2)
              ''aten::upsample_nearest2d input Tensor and output size dimension mismatch'') (\<lambda>_.
       bnd (lift (std_copy out_size in_shape
              (size_sub (length in_shape) (length out_size)))) (\<lambda>out_shape.
       bnd (addResize B in0) (\<lambda>resize_layer.
       bnd (TRTORCH_CHECK (resize_layer \<noteq> None)
              (''Unable to create interpolation (resizing) layer from node'' @ node_print n)) (\<lambda>_.
       bnd (lift (toDims (MAX_DIMS B) out_shape)) (\<lambda>x.
       bnd (setOutputDimensions resize_layer x) (\<lambda>_.
       bnd (setResizeMode resize_layer kNEAREST) (\<lambda>_.
       bnd (setName resize_layer (node_info n)) (\<lambda>_.
       bnd (lift (outputs_at n 0)) (\<lambda>v.
       bnd (getOutput resize_layer 0) (\<lambda>t.
       bnd (AssociateValueAndTensor v t) (\<lambda>layer_output.
       ret True)))))))))))))
     else ret True)))))"

definition upsample_nearest3d :: "backend \<Rightarrow> Node \<Rightarrow> Var list \<Rightarrow> bool conv" where
  "upsample_nearest3d B n args =
     bnd (lift (bindE (args_at args 0) Var_ITensor)) (\<lambda>in0.
     bnd (getDimensions_of in0) (\<lambda>dims0.
     bnd (lift (toVec (MAX_DIMS B) dims0)) (\<lambda>in_shape.
     bnd (lift (bindE (args_at args 1) Var_IValue)) (\<lambda>a1.
     bnd (if \<not> isNone a1
          then bnd (lift (bindE (args_at args 2) Var_IValue)) (\<lambda>a2.
               if isNone a2
               then bnd (lift (bindE (args_at args 3) Var_IValue)) (\<lambda>a3.
                    if isNone a3
                    then bnd (lift (bindE (args_at args 4) Var_IValue)) (\<lambda>a4. ret (isNone a4))
                    else ret False)
               else ret False)
          else ret False) (\<lambda>case1.
     if case1
     then
       bnd (lift (bindE (args_at args 1) unwrapToIntList)) (\<lambda>l.
       bnd (lift (bindE (toDims (MAX_DIMS B) l) (toVec (MAX_DIMS B)))) (\<lambda>out_size.
       bnd (TRTORCH_ASSERT (length out_size = 3)
              ''aten::upsample_nearest3d input Tensor and output size dimension mismatch'') (\<lambda>_.
       bnd (lift (std_copy out_size in_shape
              (size_sub (length in_shape) (length out_size)))) (\<lambda>out_shape.
       bnd (addResize B in0) (\<lambda>resize_layer.
       bnd (TRTORCH_CHECK (resize_layer \<noteq> None)
              (''Unable to create interpolation (resizing) layer from node'' @ node_print n)) (\<lambda>_.
       bnd (lift (toDims (MAX_DIMS B) out_shape)) (\<lambda>x.
       bnd (setOutputDimensions resize_layer x) (\<lambda>_.
       bnd (setResizeMode resize_layer kNEAREST) (\<lambda>_.
       bnd (setName resize_layer (node_info n)) (\<lambda>_.
       bnd (lift (outputs_at n 0)) (\<lambda>v.
       bnd (getOutput resize_layer 0) (\<lambda>t.
       bnd (AssociateValueAndTensor v t) (\<lambda>layer_output.
       ret True)))))))))))))
     else ret True)))))"

subsection \<open>The converters in parts\<close>

text \<open>
  The three lambdas share their second half, and the 1-D lambda has a first half of its
  own. The parts are named here, literally as they stand in the converters, so that each
  can be characterised once.
\<close>

definition strip_padding ::
  "backend \<Rightarrow> Node \<Rightarrow> ITensor \<Rightarrow> int list \<Rightarrow> (ITensor \<times> int list) conv" where
  "strip_padding B n in0 in_shape0 =
            (let in_shape = tl in_shape0 in
             bnd (addShuffle B in0) (\<lambda>shuffle.
             bnd (lift (toDims (MAX_DIMS B) in_shape)) (\<lambda>x.
             bnd (setReshapeDimensions shuffle x) (\<lambda>_.
             bnd (lift (toDims (MAX_DIMS B) in_shape)) (\<lambda>y.
             bnd (setName shuffle (node_info n @ '' [Reshape to '' @ toStr B y @ '']'')) (\<lambda>_.
             bnd (getOutput shuffle 0) (\<lambda>in1.
             ret (in1, in_shape))))))))"

definition build_resize ::
  "nat \<Rightarrow> string \<Rightarrow> backend \<Rightarrow> Node \<Rightarrow> Var list \<Rightarrow> ITensor \<Rightarrow> int list \<Rightarrow> bool conv" where
  "build_resize R msg B n args in1 in_shape =
       bnd (lift (bindE (args_at args 1) unwrapToIntList)) (\<lambda>l.
       bnd (lift (bindE (toDims (MAX_DIMS B) l) (toVec (MAX_DIMS B)))) (\<lambda>out_size.
       bnd (TRTORCH_ASSERT (length out_size = R) msg) (\<lambda>_.
       bnd (lift (std_copy out_size in_shape
              (size_sub (length in_shape) (length out_size)))) (\<lambda>out_shape.
       bnd (addResize B in1) (\<lambda>resize_layer.
       bnd (TRTORCH_CHECK (resize_layer \<noteq> None)
              (''Unable to create interpolation (resizing) layer from node'' @ node_print n)) (\<lambda>_.
       bnd (lift (toDims (MAX_DIMS B) out_shape)) (\<lambda>x.
       bnd (setOutputDimensions resize_layer x) (\<lambda>_.
       bnd (setResizeMode resize_layer kNEAREST) (\<lambda>_.
       bnd (setName resize_layer (node_info n)) (\<lambda>_.
       bnd (lift (outputs_at n 0)) (\<lambda>v.
       bnd (getOutput resize_layer 0) (\<lambda>t.
       bnd (AssociateValueAndTensor v t) (\<lambda>layer_output.
       ret True)))))))))))))"

text \<open>
  The test \<^verbatim>\<open>!args[1].IValue()->isNone() && args[2].IValue()->isNone() && ...\<close> over
  \<open>k\<close> scale operands, evaluated from left to right and stopping at the first conjunct
  that is false.
\<close>

fun scales_absent :: "Var list \<Rightarrow> nat \<Rightarrow> nat \<Rightarrow> error + bool" where
  "scales_absent args i 0 = Inr True"
| "scales_absent args i (Suc k) =
     bindE (bindE (args_at args i) Var_IValue) (\<lambda>a.
       if isNone a then scales_absent args (Suc i) k else Inr False)"

definition case1 :: "nat \<Rightarrow> Var list \<Rightarrow> error + bool" where
  "case1 k args =
     bindE (bindE (args_at args 1) Var_IValue) (\<lambda>a1.
       if \<not> isNone a1 then scales_absent args 2 k else Inr False)"

definition after_mode ::
  "nat \<Rightarrow> string \<Rightarrow> backend \<Rightarrow> Node \<Rightarrow> Var list \<Rightarrow> ITensor \<Rightarrow> int list \<Rightarrow> bool conv" where
  "after_mode R msg B n args in1 in_shape ctx =
     (case case1 R args of
        Inl e \<Rightarrow> (ctx, Inl e)
      | Inr c \<Rightarrow> if c then build_resize R msg B n args in1 in_shape ctx else (ctx, Inr True))"

subsection \<open>What a converter leaves behind\<close>

text \<open>The resize layer and the shuffle layer once every setter of the converter has run.\<close>

definition resize_layer_of :: "Node \<Rightarrow> ITensor \<Rightarrow> int list \<Rightarrow> ILayer" where
  "resize_layer_of n t shape =
     \<lparr>ltype = kRESIZE, linput = t, ldims = Some \<lparr>nbDims = int (length shape), d = shape\<rparr>,
      lmode = Some kNEAREST, lname = Some (node_info n)\<rparr>"

definition shuffle_layer_of :: "backend \<Rightarrow> Node \<Rightarrow> ITensor \<Rightarrow> int list \<Rightarrow> ILayer" where
  "shuffle_layer_of B n t shape =
     \<lparr>ltype = kSHUFFLE, linput = t, ldims = Some \<lparr>nbDims = int (length shape), d = shape\<rparr>,
      lmode = None,
      lname = Some (node_info n @ '' [Reshape to '' @
                toStr B \<lparr>nbDims = int (length shape), d = shape\<rparr> @ '']'')\<rparr>"

text \<open>
  The declared output shape of a node: the shape of the tensor that the context
  associates with the node's output 0, read back as a sequence.
\<close>

definition output_shape :: "backend \<Rightarrow> Node \<Rightarrow> ConversionCtx \<Rightarrow> int list option" where
  "output_shape B n ctx =
     (case outputs n of
        [] \<Rightarrow> None
      | v # vs \<Rightarrow>
          (case lookup_tensor ctx v of
             None \<Rightarrow> None
           | Some t \<Rightarrow>
               (case toVec (MAX_DIMS B) (getDimensions (net ctx) t) of
                  Inl e \<Rightarrow> None
                | Inr S \<Rightarrow> Some S)))"

subsection \<open>A concrete backend, node and context\<close>

definition B0 :: backend where
  "B0 = \<lparr>MAX_DIMS = 8, toStr = (\<lambda>x. ''dims''), creates = (\<lambda>ty ls t. True)\<rparr>"

definition n0 :: Node where
  "n0 = \<lparr>node_info = ''%out : Tensor = aten::upsample_nearest'',
          node_print = ''%out : Tensor = aten::upsample_nearest(%self, %size, %scales)'',
          outputs = [7]\<rparr>"

definition ctx0 :: ConversionCtx where
  "ctx0 = \<lparr>net = [], value_tensor_map = []\<rparr>"

definition tensor_of :: "int list \<Rightarrow> ITensor" where
  "tensor_of S = NetworkTensor 0 \<lparr>nbDims = int (length S), d = S\<rparr>"

section \<open>Properties\<close>

subsection \<open>Sequencing and shape conversion\<close>

lemma bindE_simps: "bindE (Inr x) f = f x" "bindE (Inl e) f = Inl e"
  by (simp_all add: bindE_def)

lemmas conv_defs = bnd_def lift_def ret_def throw_def bindE_simps
    addShuffle_def addResize_def addLayer_def
    new_layer_def on_layer_def setReshapeDimensions_def setOutputDimensions_def
    setResizeMode_def setName_def getOutput_def
    AssociateValueAndTensor_def TRTORCH_ASSERT_def TRTORCH_CHECK_def outputs_at_def
    getDimensions_of_def

lemma toVec_length: "toVec m x = Inr S \<Longrightarrow> length S \<le> m"
  by (auto simp: toVec_def valid_Dims_def split: if_splits)

lemma toVec_mk:
  "toVec m \<lparr>nbDims = int (length l), d = l\<rparr> = (if length l \<le> m then Inr l else Inl DimsDomain)"
  by (simp add: toVec_def valid_Dims_def)

lemma std_copy_tail:
  "std_copy src dst (size_sub (length dst) (length src)) =
     (if length src \<le> length dst then Inr (take (length dst - length src) dst @ src)
      else Inl CopyOverrun)"
  by (simp add: std_copy_def size_sub_def)

subsection \<open>The parts of the converters in closed form\<close>

lemma build_resize_nf:
  "build_resize R msg B n args in1 in_shape ctx =
   (case bindE (args_at args 1) unwrapToIntList of
      Inl e \<Rightarrow> (ctx, Inl e)
    | Inr os \<Rightarrow>
       if MAX_DIMS B < length os then (ctx, Inl DimsDomain)
       else if length os \<noteq> R then (ctx, Inl (AssertError msg))
       else if length in_shape < R then (ctx, Inl CopyOverrun)
       else if \<not> creates B kRESIZE (net ctx) in1
         then (ctx, Inl (CheckError
                 (''Unable to create interpolation (resizing) layer from node'' @ node_print n)))
       else if MAX_DIMS B < length in_shape
         then (ctx\<lparr>net := net ctx @ [new_layer kRESIZE in1]\<rparr>, Inl DimsDomain)
       else (case outputs n of
               [] \<Rightarrow> (ctx\<lparr>net := net ctx @
                        [resize_layer_of n in1 (take (length in_shape - R) in_shape @ os)]\<rparr>,
                      Inl OutOfRange)
             | v # vs \<Rightarrow>
                     (ctx\<lparr>net := net ctx @
                        [resize_layer_of n in1 (take (length in_shape - R) in_shape @ os)],
                        value_tensor_map :=
                          (v, LayerOutput (length (net ctx)) 0) # value_tensor_map ctx\<rparr>,
                      Inr True)))"
  unfolding build_resize_def
  by (cases "bindE (args_at args 1) unwrapToIntList")
     (auto simp: conv_defs toVec_mk std_copy_tail toDims_def resize_layer_of_def
           split: list.splits)

lemma strip_padding_nf:
  assumes "length S \<le> MAX_DIMS B"
  shows "strip_padding B n t S ctx =
         (if creates B kSHUFFLE (net ctx) t
          then (ctx\<lparr>net := net ctx @ [shuffle_layer_of B n t (tl S)]\<rparr>,
                Inr (LayerOutput (length (net ctx)) 0, tl S))
          else (ctx, Inl NullLayer))"
proof -
  have "length (tl S) \<le> MAX_DIMS B" using assms by simp
  then show ?thesis
    by (simp add: strip_padding_def Let_def conv_defs toDims_def shuffle_layer_of_def)
qed

lemma upsample_nearest1d_alt:
  "upsample_nearest1d B n args =
     bnd (lift (bindE (args_at args 0) Var_ITensor)) (\<lambda>in0.
     bnd (getDimensions_of in0) (\<lambda>dims0.
     bnd (lift (toVec (MAX_DIMS B) dims0)) (\<lambda>in_shape0.
     bnd (if length in_shape0 \<ge> 4
          then strip_padding B n in0 in_shape0
          else ret (in0, in_shape0)) (\<lambda>(in1, in_shape).
     bnd (lift (bindE (args_at args 1) Var_IValue)) (\<lambda>a1.
     bnd (if \<not> isNone a1
          then bnd (lift (bindE (args_at args 2) Var_IValue)) (\<lambda>a2. ret (isNone a2))
          else ret False) (\<lambda>case1.
     if case1
     then build_resize 1
            ''aten::upsample_nearest1d input Tensor and output size dimension mismatch''
            B n args in1 in_shape
     else ret True))))))"
  unfolding upsample_nearest1d_def build_resize_def strip_padding_def by (rule refl)

lemma upsample_nearest2d_alt:
  "upsample_nearest2d B n args =
     bnd (lift (bindE (args_at args 0) Var_ITensor)) (\<lambda>in0.
     bnd (getDimensions_of in0) (\<lambda>dims0.
     bnd (lift (toVec (MAX_DIMS B) dims0)) (\<lambda>in_shape.
     bnd (lift (bindE (args_at args 1) Var_IValue)) (\<lambda>a1.
     bnd (if \<not> isNone a1
          then bnd (lift (bindE (args_at args 2) Var_IValue)) (\<lambda>a2.
               if isNone a2
               then bnd (lift (bindE (args_at args 3) Var_IValue)) (\<lambda>a3. ret (isNone a3))
               else ret False)
          else ret False) (\<lambda>case1.
     if case1
     then build_resize 2
            ''aten::upsample_nearest2d input Tensor and output size dimension mismatch''
            B n args in0 in_shape
     else ret True)))))"
  unfolding upsample_nearest2d_def build_resize_def by (rule refl)

lemma upsample_nearest3d_alt:
  "upsample_nearest3d B n args =
     bnd (lift (bindE (args_at args 0) Var_ITensor)) (\<lambda>in0.
     bnd (getDimensions_of in0) (\<lambda>dims0.
     bnd (lift (toVec (MAX_DIMS B) dims0)) (\<lambda>in_shape.
     bnd (lift (bindE (args_at args 1) Var_IValue)) (\<lambda>a1.
     bnd (if \<not> isNone a1
          then bnd (lift (bindE (args_at args 2) Var_IValue)) (\<lambda>a2.
               if isNone a2
               then bnd (lift (bindE (args_at args 3) Var_IValue)) (\<lambda>a3.
                    if isNone a3
                    then bnd (lift (bindE (args_at args 4) Var_IValue)) (\<lambda>a4. ret (isNone a4))
                    else ret False)
               else ret False)
          else ret False) (\<lambda>case1.
     if case1
     then build_resize 3
            ''aten::upsample_nearest3d input Tensor and output size dimension mismatch''
            B n args in0 in_shape
     else ret True)))))"
  unfolding upsample_nearest3d_def build_resize_def by (rule refl)

lemma upsample_nearest1d_nf:
  "upsample_nearest1d B n args ctx =
     (case bindE (args_at args 0) Var_ITensor of
        Inl e \<Rightarrow> (ctx, Inl e)
      | Inr t \<Rightarrow>
         (case toVec (MAX_DIMS B) (getDimensions (net ctx) t) of
            Inl e \<Rightarrow> (ctx, Inl e)
          | Inr S \<Rightarrow>
             if 4 \<le> length S
             then
               if creates B kSHUFFLE (net ctx) t
               then after_mode 1
                      ''aten::upsample_nearest1d input Tensor and output size dimension mismatch''
                      B n args (LayerOutput (length (net ctx)) 0) (tl S)
                      (ctx\<lparr>net := net ctx @ [shuffle_layer_of B n t (tl S)]\<rparr>)
               else (ctx, Inl NullLayer)
             else after_mode 1
                    ''aten::upsample_nearest1d input Tensor and output size dimension mismatch''
                    B n args t S ctx))"
proof (cases "bindE (args_at args 0) Var_ITensor")
  case (Inl e)
  then show ?thesis by (simp add: upsample_nearest1d_alt bnd_def lift_def)
next
  case (Inr t)
  show ?thesis
  proof (cases "toVec (MAX_DIMS B) (getDimensions (net ctx) t)")
    case (Inl e)
    with Inr show ?thesis
      by (simp add: upsample_nearest1d_alt bnd_def lift_def getDimensions_of_def)
  next
    case S: (Inr S)
    have m: "length S \<le> MAX_DIMS B" using S by (rule toVec_length)
    from Inr S show ?thesis
      unfolding upsample_nearest1d_alt
      by (auto simp: bnd_def lift_def ret_def getDimensions_of_def strip_padding_nf [OF m]
                     after_mode_def case1_def bindE_def numeral_2_eq_2
               split: sum.splits)
  qed
qed

lemma upsample_nearest2d_nf:
  "upsample_nearest2d B n args ctx =
     (case bindE (args_at args 0) Var_ITensor of
        Inl e \<Rightarrow> (ctx, Inl e)
      | Inr t \<Rightarrow>
         (case toVec (MAX_DIMS B) (getDimensions (net ctx) t) of
            Inl e \<Rightarrow> (ctx, Inl e)
          | Inr S \<Rightarrow>
             after_mode 2
               ''aten::upsample_nearest2d input Tensor and output size dimension mismatch''
               B n args t S ctx))"
  unfolding upsample_nearest2d_alt after_mode_def case1_def
  by (auto simp: bnd_def lift_def ret_def getDimensions_of_def bindE_def eval_nat_numeral
           split: sum.splits)

lemma upsample_nearest3d_nf:
  "upsample_nearest3d B n args ctx =
     (case bindE (args_at args 0) Var_ITensor of
        Inl e \<Rightarrow> (ctx, Inl e)
      | Inr t \<Rightarrow>
         (case toVec (MAX_DIMS B) (getDimensions (net ctx) t) of
            Inl e \<Rightarrow> (ctx, Inl e)
          | Inr S \<Rightarrow>
             after_mode 3
               ''aten::upsample_nearest3d input Tensor and output size dimension mismatch''
               B n args t S ctx))"
  unfolding upsample_nearest3d_alt after_mode_def case1_def
  by (auto simp: bnd_def lift_def ret_def getDimensions_of_def bindE_def eval_nat_numeral
           split: sum.splits)

lemma after_mode_true:
  "after_mode R msg B n args in1 in_shape ctx = (ctx', Inr b) \<Longrightarrow> b"
  by (auto simp: after_mode_def build_resize_nf split: sum.splits if_splits list.splits)

subsection \<open>Operand lists written out\<close>

lemma case1_1d:
  "case1 (Suc 0) [a0, VarIValue a1, VarIValue a2] = Inr (a1 \<noteq> INone \<and> a2 = INone)"
  by (simp add: case1_def args_at_def Var_IValue_def isNone_def bindE_simps eval_nat_numeral)

lemma case1_2d:
  "case1 2 [a0, VarIValue a1, VarIValue a2, VarIValue a3] =
     Inr (a1 \<noteq> INone \<and> a2 = INone \<and> a3 = INone)"
  by (simp add: case1_def args_at_def Var_IValue_def isNone_def bindE_simps eval_nat_numeral)

lemma case1_3d:
  "case1 3 [a0, VarIValue a1, VarIValue a2, VarIValue a3, VarIValue a4] =
     Inr (a1 \<noteq> INone \<and> a2 = INone \<and> a3 = INone \<and> a4 = INone)"
  by (simp add: case1_def args_at_def Var_IValue_def isNone_def bindE_simps eval_nat_numeral)

lemma arg0_tensor: "bindE (args_at (VarITensor t # as) 0) Var_ITensor = Inr t"
  by (simp add: args_at_def Var_ITensor_def bindE_simps)

lemma arg1_int_list:
  "bindE (args_at (a0 # VarIValue (IIntList os) # as) (Suc 0)) unwrapToIntList = Inr os"
  by (simp add: args_at_def unwrapToIntList_def bindE_simps)

lemmas explicit_args = case1_1d case1_2d case1_3d arg0_tensor arg1_int_list

lemmas concrete_defs = B0_def n0_def ctx0_def tensor_of_def toVec_def valid_Dims_def

subsection \<open>The layer-building path, run to its end\<close>

lemma run1d_small:
  assumes "toVec (MAX_DIMS B) (getDimensions (net ctx) t) = Inr S"
    and "1 \<le> length S" and "length S < 4" and "length os = 1"
    and "creates B kRESIZE (net ctx) t" and "outputs n = v # vs"
  shows "upsample_nearest1d B n [VarITensor t, VarIValue (IIntList os), VarIValue INone] ctx =
     (ctx\<lparr>net := net ctx @ [resize_layer_of n t (take (length S - 1) S @ os)],
          value_tensor_map := (v, LayerOutput (length (net ctx)) 0) # value_tensor_map ctx\<rparr>,
      Inr True)"
proof -
  have "length S \<le> MAX_DIMS B" using assms(1) by (rule toVec_length)
  moreover have "S \<noteq> []" using assms(2) by auto
  ultimately show ?thesis using assms
    by (auto simp: upsample_nearest1d_nf explicit_args after_mode_def build_resize_nf
                   numeral_2_eq_2)
qed

lemma run1d_big:
  assumes "toVec (MAX_DIMS B) (getDimensions (net ctx) t) = Inr S"
    and "4 \<le> length S" and "length os = 1"
    and "creates B kSHUFFLE (net ctx) t"
    and "creates B kRESIZE (net ctx @ [shuffle_layer_of B n t (tl S)])
           (LayerOutput (length (net ctx)) 0)"
    and "outputs n = v # vs"
  shows "upsample_nearest1d B n [VarITensor t, VarIValue (IIntList os), VarIValue INone] ctx =
     (ctx\<lparr>net := net ctx @
            [shuffle_layer_of B n t (tl S),
             resize_layer_of n (LayerOutput (length (net ctx)) 0)
               (take (length S - 2) (tl S) @ os)],
          value_tensor_map :=
            (v, LayerOutput (Suc (length (net ctx))) 0) # value_tensor_map ctx\<rparr>,
      Inr True)"
proof -
  have "length S \<le> MAX_DIMS B" using assms(1) by (rule toVec_length)
  moreover have "S \<noteq> []" using assms(2) by auto
  ultimately show ?thesis using assms
    by (auto simp: upsample_nearest1d_nf explicit_args after_mode_def build_resize_nf
                   numeral_2_eq_2)
qed

lemma run2d:
  assumes "toVec (MAX_DIMS B) (getDimensions (net ctx) t) = Inr S"
    and "2 \<le> length S" and "length os = 2"
    and "creates B kRESIZE (net ctx) t" and "outputs n = v # vs"
  shows "upsample_nearest2d B n
           [VarITensor t, VarIValue (IIntList os), VarIValue INone, VarIValue INone] ctx =
     (ctx\<lparr>net := net ctx @ [resize_layer_of n t (take (length S - 2) S @ os)],
          value_tensor_map := (v, LayerOutput (length (net ctx)) 0) # value_tensor_map ctx\<rparr>,
      Inr True)"
proof -
  have "length S \<le> MAX_DIMS B" using assms(1) by (rule toVec_length)
  with assms show ?thesis
    by (simp add: upsample_nearest2d_nf explicit_args after_mode_def build_resize_nf)
qed

lemma run3d:
  assumes "toVec (MAX_DIMS B) (getDimensions (net ctx) t) = Inr S"
    and "3 \<le> length S" and "length os = 3"
    and "creates B kRESIZE (net ctx) t" and "outputs n = v # vs"
  shows "upsample_nearest3d B n
           [VarITensor t, VarIValue (IIntList os), VarIValue INone, VarIValue INone,
            VarIValue INone] ctx =
     (ctx\<lparr>net := net ctx @ [resize_layer_of n t (take (length S - 3) S @ os)],
          value_tensor_map := (v, LayerOutput (length (net ctx)) 0) # value_tensor_map ctx\<rparr>,
      Inr True)"
proof -
  have "length S \<le> MAX_DIMS B" using assms(1) by (rule toVec_length)
  with assms show ?thesis
    by (simp add: upsample_nearest3d_nf explicit_args after_mode_def build_resize_nf)
qed

lemma output_shape_at:
  assumes "outputs n = v # vs" and "k < length (net c)"
    and "net c ! k = resize_layer_of n t sh" and "length sh \<le> MAX_DIMS B"
    and "value_tensor_map c = (v, LayerOutput k 0) # m"
  shows "output_shape B n c = Some sh"
  using assms
  by (simp add: output_shape_def lookup_tensor_def resize_layer_of_def toVec_mk)

lemma tl_overwrite:
  assumes "2 \<le> length S"
  shows "tl (take (length S - 1) S @ os) = take (length S - 2) (tl S) @ os"
proof -
  have "take (length S - 1) S \<noteq> []" using assms by auto
  then have "tl (take (length S - 1) S @ os) = tl (take (length S - 1) S) @ os" by simp
  also have "tl (take (length S - 1) S) = take (length S - 1 - 1) (tl S)" by (rule tl_take)
  finally show ?thesis by (simp add: numeral_2_eq_2)
qed

subsection \<open>The layers a run adds\<close>

lemma after_mode_layers:
  assumes "length in_shape \<le> MAX_DIMS B"
  shows "\<exists>rest. net (fst (after_mode R msg B n args in1 in_shape ctx)) = net ctx @ rest \<and>
           (rest = [] \<or>
            (\<exists>os. bindE (args_at args 1) unwrapToIntList = Inr os \<and> length os = R \<and>
                  R \<le> length in_shape \<and>
                  rest = [resize_layer_of n in1 (take (length in_shape - R) in_shape @ os)]))"
  using assms
  by (auto simp: after_mode_def build_resize_nf split: sum.splits list.splits)

lemma scales_absent_no_overrun: "scales_absent args i k \<noteq> Inl CopyOverrun"
  by (induction k arbitrary: i)
     (auto simp: bindE_def args_at_def Var_IValue_def split: sum.splits Var.splits if_splits)

subsection \<open>Shape conversion\<close>

text \<open>
  C5. The shape conversions are mutual inverses: converting a valid native shape to a
  sequence and back gives the same native shape, and converting a sequence whose rank is
  at most the backend's maximum rank to a native shape and back gives the same sequence.
  Neither conversion faults on these inputs.
\<close>

theorem toDims_toVec_inverse:
  "(valid_Dims m x \<longrightarrow> bindE (toVec m x) (toDims m) = Inr x) \<and>
   (length v \<le> m \<longrightarrow> bindE (toDims m v) (toVec m) = Inr v)"
proof (intro conjI impI)
  assume v: "valid_Dims m x"
  then have "nat (nbDims x) = length (d x)"
    by (auto simp: valid_Dims_def)
  with v have "toVec m x = Inr (d x)"
    by (simp add: toVec_def)
  moreover have "toDims m (d x) = Inr x"
    using v by (auto simp: toDims_def valid_Dims_def)
  ultimately show "bindE (toVec m x) (toDims m) = Inr x"
    by (simp add: bindE_simps)
next
  assume "length v \<le> m"
  then show "bindE (toDims m v) (toVec m) = Inr v"
    by (simp add: toDims_def toVec_mk bindE_simps)
qed

theorem toDims_toVec_inverse_witness:
  "valid_Dims 8 \<lparr>nbDims = 3, d = [2, 3, 8]\<rparr> \<and>
   bindE (toVec 8 \<lparr>nbDims = 3, d = [2, 3, 8]\<rparr>) (toDims 8) = Inr \<lparr>nbDims = 3, d = [2, 3, 8]\<rparr> \<and>
   length [2, 3, 8 :: int] \<le> 8 \<and>
   bindE (toDims 8 [2, 3, 8]) (toVec 8) = Inr [2, 3, 8]"
  using toDims_toVec_inverse [of 8 "\<lparr>nbDims = 3, d = [2, 3, 8]\<rparr>" "[2, 3, 8]"]
  by (simp add: valid_Dims_def)

subsection \<open>The value returned\<close>

text \<open>
  C8. Every converter of the family returns true on every path that reaches its end,
  the skipped scale-factor path included: a run that completes never returns false.
\<close>

theorem converters_return_true:
  "(upsample_nearest1d B n args ctx = (ctx', Inr b) \<longrightarrow> b) \<and>
   (upsample_nearest2d B n args ctx = (ctx', Inr b) \<longrightarrow> b) \<and>
   (upsample_nearest3d B n args ctx = (ctx', Inr b) \<longrightarrow> b)"
  by (auto simp: upsample_nearest1d_nf upsample_nearest2d_nf upsample_nearest3d_nf
           split: sum.splits if_splits dest: after_mode_true)

theorem converters_return_true_witness:
  "(\<exists>c b. upsample_nearest1d B0 n0
       [VarITensor (tensor_of [1, 2, 3, 8]), VarIValue INone, VarIValue (IDouble 2)] ctx0 =
         (c, Inr b) \<and> b) \<and>
   (\<exists>c b. upsample_nearest2d B0 n0
       [VarITensor (tensor_of [1, 3, 32, 32]), VarIValue (IIntList [64, 64]), VarIValue INone,
        VarIValue INone] ctx0 = (c, Inr b) \<and> b) \<and>
   (\<exists>c b. upsample_nearest3d B0 n0
       [VarITensor (tensor_of [1, 3, 4, 8, 8]), VarIValue (IIntList [4, 16, 16]), VarIValue INone,
        VarIValue (IDouble 2), VarIValue INone] ctx0 = (c, Inr b) \<and> b)"
proof -
  obtain c1 r1 where r1: "upsample_nearest1d B0 n0
       [VarITensor (tensor_of [1, 2, 3, 8]), VarIValue INone, VarIValue (IDouble 2)] ctx0 =
         (c1, Inr r1)"
    by (simp add: upsample_nearest1d_nf explicit_args concrete_defs after_mode_def)
  obtain c2 r2 where r2: "upsample_nearest2d B0 n0
       [VarITensor (tensor_of [1, 3, 32, 32]), VarIValue (IIntList [64, 64]), VarIValue INone,
        VarIValue INone] ctx0 = (c2, Inr r2)"
    by (simp add: upsample_nearest2d_nf explicit_args concrete_defs after_mode_def build_resize_nf)
  obtain c3 r3 where r3: "upsample_nearest3d B0 n0
       [VarITensor (tensor_of [1, 3, 4, 8, 8]), VarIValue (IIntList [4, 16, 16]), VarIValue INone,
        VarIValue (IDouble 2), VarIValue INone] ctx0 = (c3, Inr r3)"
    by (simp add: upsample_nearest3d_nf explicit_args concrete_defs after_mode_def)
  from converters_return_true [of B0 n0 _ ctx0 c1 r1] r1 have "r1" by blast
  moreover from converters_return_true [of B0 n0 _ ctx0 c2 r2] r2 have "r2" by blast
  moreover from converters_return_true [of B0 n0 _ ctx0 c3 r3] r3 have "r3" by blast
  ultimately show ?thesis using r1 r2 r3 by blast
qed

subsection \<open>The resize layer and the output association\<close>

text \<open>
  C7. On the layer-building path (output size present with the right number of entries,
  every scale operand absent, the backend creating the layers asked for) each converter
  adds one resize layer on the input tensor, or on the output of the shuffle layer when
  the 1-D converter has reshaped, stores the computed output shape in it, sets its mode to
  nearest-neighbour, names it with the node's info text, and adds exactly one entry to the
  context's association: the node's output 0 with output 0 of that resize layer.
\<close>

theorem resize_layer_built:
  assumes "toVec (MAX_DIMS B) (getDimensions (net ctx) t) = Inr S" and "outputs n = v # vs"
  shows
   "(1 \<le> length S \<and> length S < 4 \<and> length os = 1 \<and> creates B kRESIZE (net ctx) t \<longrightarrow>
       upsample_nearest1d B n [VarITensor t, VarIValue (IIntList os), VarIValue INone] ctx =
         (ctx\<lparr>net := net ctx @ [resize_layer_of n t (take (length S - 1) S @ os)],
              value_tensor_map :=
                (v, LayerOutput (length (net ctx)) 0) # value_tensor_map ctx\<rparr>,
          Inr True)) \<and>
    (4 \<le> length S \<and> length os = 1 \<and> creates B kSHUFFLE (net ctx) t \<and>
     creates B kRESIZE (net ctx @ [shuffle_layer_of B n t (tl S)])
       (LayerOutput (length (net ctx)) 0) \<longrightarrow>
       upsample_nearest1d B n [VarITensor t, VarIValue (IIntList os), VarIValue INone] ctx =
         (ctx\<lparr>net := net ctx @
                [shuffle_layer_of B n t (tl S),
                 resize_layer_of n (LayerOutput (length (net ctx)) 0)
                   (take (length S - 2) (tl S) @ os)],
              value_tensor_map :=
                (v, LayerOutput (Suc (length (net ctx))) 0) # value_tensor_map ctx\<rparr>,
          Inr True)) \<and>
    (2 \<le> length S \<and> length os = 2 \<and> creates B kRESIZE (net ctx) t \<longrightarrow>
       upsample_nearest2d B n
         [VarITensor t, VarIValue (IIntList os), VarIValue INone, VarIValue INone] ctx =
         (ctx\<lparr>net := net ctx @ [resize_layer_of n t (take (length S - 2) S @ os)],
              value_tensor_map :=
                (v, LayerOutput (length (net ctx)) 0) # value_tensor_map ctx\<rparr>,
          Inr True)) \<and>
    (3 \<le> length S \<and> length os = 3 \<and> creates B kRESIZE (net ctx) t \<longrightarrow>
       upsample_nearest3d B n
         [VarITensor t, VarIValue (IIntList os), VarIValue INone, VarIValue INone,
          VarIValue INone] ctx =
         (ctx\<lparr>net := net ctx @ [resize_layer_of n t (take (length S - 3) S @ os)],
              value_tensor_map :=
                (v, LayerOutput (length (net ctx)) 0) # value_tensor_map ctx\<rparr>,
          Inr True))"
  using assms
  by (intro conjI impI) (simp_all add: run1d_small run1d_big run2d run3d)

theorem resize_layer_built_witness:
  "upsample_nearest1d B0 n0
     [VarITensor (tensor_of [2, 3, 8]), VarIValue (IIntList [16]), VarIValue INone] ctx0 =
     (\<lparr>net = [resize_layer_of n0 (tensor_of [2, 3, 8]) [2, 3, 16]],
       value_tensor_map = [(7, LayerOutput 0 0)]\<rparr>, Inr True) \<and>
   upsample_nearest1d B0 n0
     [VarITensor (tensor_of [1, 2, 3, 8]), VarIValue (IIntList [16]), VarIValue INone] ctx0 =
     (\<lparr>net = [shuffle_layer_of B0 n0 (tensor_of [1, 2, 3, 8]) [2, 3, 8],
              resize_layer_of n0 (LayerOutput 0 0) [2, 3, 16]],
       value_tensor_map = [(7, LayerOutput 1 0)]\<rparr>, Inr True) \<and>
   upsample_nearest2d B0 n0
     [VarITensor (tensor_of [1, 3, 32, 32]), VarIValue (IIntList [64, 64]), VarIValue INone,
      VarIValue INone] ctx0 =
     (\<lparr>net = [resize_layer_of n0 (tensor_of [1, 3, 32, 32]) [1, 3, 64, 64]],
       value_tensor_map = [(7, LayerOutput 0 0)]\<rparr>, Inr True) \<and>
   upsample_nearest3d B0 n0
     [VarITensor (tensor_of [1, 3, 4, 8, 8]), VarIValue (IIntList [4, 16, 16]), VarIValue INone,
      VarIValue INone, VarIValue INone] ctx0 =
     (\<lparr>net = [resize_layer_of n0 (tensor_of [1, 3, 4, 8, 8]) [1, 3, 4, 16, 16]],
       value_tensor_map = [(7, LayerOutput 0 0)]\<rparr>, Inr True)"
proof (intro conjI)
  show "upsample_nearest1d B0 n0
     [VarITensor (tensor_of [2, 3, 8]), VarIValue (IIntList [16]), VarIValue INone] ctx0 =
     (\<lparr>net = [resize_layer_of n0 (tensor_of [2, 3, 8]) [2, 3, 16]],
       value_tensor_map = [(7, LayerOutput 0 0)]\<rparr>, Inr True)"
    using resize_layer_built [of B0 ctx0 "tensor_of [2, 3, 8]" "[2, 3, 8]" n0 7 "[]" "[16]"]
    by (simp add: concrete_defs)
  show "upsample_nearest1d B0 n0
     [VarITensor (tensor_of [1, 2, 3, 8]), VarIValue (IIntList [16]), VarIValue INone] ctx0 =
     (\<lparr>net = [shuffle_layer_of B0 n0 (tensor_of [1, 2, 3, 8]) [2, 3, 8],
              resize_layer_of n0 (LayerOutput 0 0) [2, 3, 16]],
       value_tensor_map = [(7, LayerOutput 1 0)]\<rparr>, Inr True)"
    using resize_layer_built [of B0 ctx0 "tensor_of [1, 2, 3, 8]" "[1, 2, 3, 8]" n0 7 "[]" "[16]"]
    by (simp add: concrete_defs)
  show "upsample_nearest2d B0 n0
     [VarITensor (tensor_of [1, 3, 32, 32]), VarIValue (IIntList [64, 64]), VarIValue INone,
      VarIValue INone] ctx0 =
     (\<lparr>net = [resize_layer_of n0 (tensor_of [1, 3, 32, 32]) [1, 3, 64, 64]],
       value_tensor_map = [(7, LayerOutput 0 0)]\<rparr>, Inr True)"
    using resize_layer_built [of B0 ctx0 "tensor_of [1, 3, 32, 32]" "[1, 3, 32, 32]" n0 7 "[]"
            "[64, 64]"]
    by (simp add: concrete_defs)
  show "upsample_nearest3d B0 n0
     [VarITensor (tensor_of [1, 3, 4, 8, 8]), VarIValue (IIntList [4, 16, 16]), VarIValue INone,
      VarIValue INone, VarIValue INone] ctx0 =
     (\<lparr>net = [resize_layer_of n0 (tensor_of [1, 3, 4, 8, 8]) [1, 3, 4, 16, 16]],
       value_tensor_map = [(7, LayerOutput 0 0)]\<rparr>, Inr True)"
    using resize_layer_built [of B0 ctx0 "tensor_of [1, 3, 4, 8, 8]" "[1, 3, 4, 8, 8]" n0 7 "[]"
            "[4, 16, 16]"]
    by (simp add: concrete_defs)
qed


subsection \<open>The declared output shape\<close>

text \<open>
  C1, as the code has it. Let the input tensor have the backend-observed shape \<open>S\<close>, let
  the output size be a list of exactly \<open>R\<close> integers and every scale operand absent, and
  let the backend create the layers asked for. The 2-D and 3-D converters (with \<open>S\<close> of
  length at least 2 and 3) declare \<open>S\<close> with its last \<open>R\<close> entries overwritten by the
  output size. So does the 1-D converter when \<open>S\<close> has between one and three entries. When
  \<open>S\<close> has four entries or more, the 1-D converter declares that shape without its first
  entry: the leading dimension is stripped, not kept.
\<close>

theorem declared_output_shape:
  assumes "toVec (MAX_DIMS B) (getDimensions (net ctx) t) = Inr S" and "outputs n = v # vs"
  shows
   "(1 \<le> length S \<and> length S < 4 \<and> length os = 1 \<and> creates B kRESIZE (net ctx) t \<longrightarrow>
       snd (upsample_nearest1d B n
              [VarITensor t, VarIValue (IIntList os), VarIValue INone] ctx) = Inr True \<and>
       output_shape B n (fst (upsample_nearest1d B n
              [VarITensor t, VarIValue (IIntList os), VarIValue INone] ctx)) =
         Some (take (length S - 1) S @ os)) \<and>
    (4 \<le> length S \<and> length os = 1 \<and> creates B kSHUFFLE (net ctx) t \<and>
     creates B kRESIZE (net ctx @ [shuffle_layer_of B n t (tl S)])
       (LayerOutput (length (net ctx)) 0) \<longrightarrow>
       snd (upsample_nearest1d B n
              [VarITensor t, VarIValue (IIntList os), VarIValue INone] ctx) = Inr True \<and>
       output_shape B n (fst (upsample_nearest1d B n
              [VarITensor t, VarIValue (IIntList os), VarIValue INone] ctx)) =
         Some (tl (take (length S - 1) S @ os))) \<and>
    (2 \<le> length S \<and> length os = 2 \<and> creates B kRESIZE (net ctx) t \<longrightarrow>
       snd (upsample_nearest2d B n
              [VarITensor t, VarIValue (IIntList os), VarIValue INone, VarIValue INone] ctx) =
         Inr True \<and>
       output_shape B n (fst (upsample_nearest2d B n
              [VarITensor t, VarIValue (IIntList os), VarIValue INone, VarIValue INone] ctx)) =
         Some (take (length S - 2) S @ os)) \<and>
    (3 \<le> length S \<and> length os = 3 \<and> creates B kRESIZE (net ctx) t \<longrightarrow>
       snd (upsample_nearest3d B n
              [VarITensor t, VarIValue (IIntList os), VarIValue INone, VarIValue INone,
               VarIValue INone] ctx) = Inr True \<and>
       output_shape B n (fst (upsample_nearest3d B n
              [VarITensor t, VarIValue (IIntList os), VarIValue INone, VarIValue INone,
               VarIValue INone] ctx)) =
         Some (take (length S - 3) S @ os))"
proof -
  have m: "length S \<le> MAX_DIMS B" using assms(1) by (rule toVec_length)
  show ?thesis
  proof (intro conjI impI)
    assume h: "1 \<le> length S \<and> length S < 4 \<and> length os = 1 \<and> creates B kRESIZE (net ctx) t"
    then have r: "upsample_nearest1d B n
        [VarITensor t, VarIValue (IIntList os), VarIValue INone] ctx =
        (ctx\<lparr>net := net ctx @ [resize_layer_of n t (take (length S - 1) S @ os)],
             value_tensor_map :=
               (v, LayerOutput (length (net ctx)) 0) # value_tensor_map ctx\<rparr>, Inr True)"
      using assms by (simp add: run1d_small)
    show "snd (upsample_nearest1d B n
              [VarITensor t, VarIValue (IIntList os), VarIValue INone] ctx) = Inr True"
      by (simp add: r)
    show "output_shape B n (fst (upsample_nearest1d B n
              [VarITensor t, VarIValue (IIntList os), VarIValue INone] ctx)) =
         Some (take (length S - 1) S @ os)"
      unfolding r using assms(2) m h
      by (intro output_shape_at [where k = "length (net ctx)" and t = t]) auto
  next
    assume h: "4 \<le> length S \<and> length os = 1 \<and> creates B kSHUFFLE (net ctx) t \<and>
     creates B kRESIZE (net ctx @ [shuffle_layer_of B n t (tl S)])
       (LayerOutput (length (net ctx)) 0)"
    then have r: "upsample_nearest1d B n
        [VarITensor t, VarIValue (IIntList os), VarIValue INone] ctx =
        (ctx\<lparr>net := net ctx @
                [shuffle_layer_of B n t (tl S),
                 resize_layer_of n (LayerOutput (length (net ctx)) 0)
                   (take (length S - 2) (tl S) @ os)],
              value_tensor_map :=
                (v, LayerOutput (Suc (length (net ctx))) 0) # value_tensor_map ctx\<rparr>, Inr True)"
      using assms by (simp add: run1d_big)
    have e: "tl (take (length S - 1) S @ os) = take (length S - 2) (tl S) @ os"
      using h by (intro tl_overwrite) simp
    show "snd (upsample_nearest1d B n
              [VarITensor t, VarIValue (IIntList os), VarIValue INone] ctx) = Inr True"
      by (simp add: r)
    show "output_shape B n (fst (upsample_nearest1d B n
              [VarITensor t, VarIValue (IIntList os), VarIValue INone] ctx)) =
         Some (tl (take (length S - 1) S @ os))"
      unfolding r e using assms(2) m h
      by (intro output_shape_at [where k = "Suc (length (net ctx))"
                  and t = "LayerOutput (length (net ctx)) 0"])
         (auto simp: nth_append)
  next
    assume h: "2 \<le> length S \<and> length os = 2 \<and> creates B kRESIZE (net ctx) t"
    then have r: "upsample_nearest2d B n
        [VarITensor t, VarIValue (IIntList os), VarIValue INone, VarIValue INone] ctx =
        (ctx\<lparr>net := net ctx @ [resize_layer_of n t (take (length S - 2) S @ os)],
             value_tensor_map :=
               (v, LayerOutput (length (net ctx)) 0) # value_tensor_map ctx\<rparr>, Inr True)"
      using assms by (simp add: run2d)
    show "snd (upsample_nearest2d B n
              [VarITensor t, VarIValue (IIntList os), VarIValue INone, VarIValue INone] ctx) =
         Inr True"
      by (simp add: r)
    show "output_shape B n (fst (upsample_nearest2d B n
              [VarITensor t, VarIValue (IIntList os), VarIValue INone, VarIValue INone] ctx)) =
         Some (take (length S - 2) S @ os)"
      unfolding r using assms(2) m h
      by (intro output_shape_at [where k = "length (net ctx)" and t = t]) auto
  next
    assume h: "3 \<le> length S \<and> length os = 3 \<and> creates B kRESIZE (net ctx) t"
    then have r: "upsample_nearest3d B n
        [VarITensor t, VarIValue (IIntList os), VarIValue INone, VarIValue INone,
         VarIValue INone] ctx =
        (ctx\<lparr>net := net ctx @ [resize_layer_of n t (take (length S - 3) S @ os)],
             value_tensor_map :=
               (v, LayerOutput (length (net ctx)) 0) # value_tensor_map ctx\<rparr>, Inr True)"
      using assms by (simp add: run3d)
    show "snd (upsample_nearest3d B n
              [VarITensor t, VarIValue (IIntList os), VarIValue INone, VarIValue INone,
               VarIValue INone] ctx) = Inr True"
      by (simp add: r)
    show "output_shape B n (fst (upsample_nearest3d B n
              [VarITensor t, VarIValue (IIntList os), VarIValue INone, VarIValue INone,
               VarIValue INone] ctx)) =
         Some (take (length S - 3) S @ os)"
      unfolding r using assms(2) m h
      by (intro output_shape_at [where k = "length (net ctx)" and t = t]) auto
  qed
qed


theorem declared_output_shape_witness:
  "output_shape B0 n0 (fst (upsample_nearest1d B0 n0
     [VarITensor (tensor_of [2, 3, 8]), VarIValue (IIntList [16]), VarIValue INone] ctx0)) =
     Some [2, 3, 16] \<and>
   output_shape B0 n0 (fst (upsample_nearest1d B0 n0
     [VarITensor (tensor_of [1, 2, 3, 8]), VarIValue (IIntList [16]), VarIValue INone] ctx0)) =
     Some [2, 3, 16] \<and>
   output_shape B0 n0 (fst (upsample_nearest2d B0 n0
     [VarITensor (tensor_of [1, 3, 32, 32]), VarIValue (IIntList [64, 64]), VarIValue INone,
      VarIValue INone] ctx0)) = Some [1, 3, 64, 64] \<and>
   output_shape B0 n0 (fst (upsample_nearest3d B0 n0
     [VarITensor (tensor_of [1, 3, 4, 8, 8]), VarIValue (IIntList [4, 16, 16]), VarIValue INone,
      VarIValue INone, VarIValue INone] ctx0)) = Some [1, 3, 4, 16, 16]"
proof (intro conjI)
  show "output_shape B0 n0 (fst (upsample_nearest1d B0 n0
     [VarITensor (tensor_of [2, 3, 8]), VarIValue (IIntList [16]), VarIValue INone] ctx0)) =
     Some [2, 3, 16]"
    using declared_output_shape
            [of B0 ctx0 "tensor_of [2, 3, 8]" "[2, 3, 8]" n0 7 "[]" "[16]"]
    by (simp add: concrete_defs)
  show "output_shape B0 n0 (fst (upsample_nearest1d B0 n0
     [VarITensor (tensor_of [1, 2, 3, 8]), VarIValue (IIntList [16]), VarIValue INone] ctx0)) =
     Some [2, 3, 16]"
    using declared_output_shape
            [of B0 ctx0 "tensor_of [1, 2, 3, 8]" "[1, 2, 3, 8]" n0 7 "[]" "[16]"]
    by (simp add: concrete_defs)
  show "output_shape B0 n0 (fst (upsample_nearest2d B0 n0
     [VarITensor (tensor_of [1, 3, 32, 32]), VarIValue (IIntList [64, 64]), VarIValue INone,
      VarIValue INone] ctx0)) = Some [1, 3, 64, 64]"
    using declared_output_shape
            [of B0 ctx0 "tensor_of [1, 3, 32, 32]" "[1, 3, 32, 32]" n0 7 "[]" "[64, 64]"]
    by (simp add: concrete_defs)
  show "output_shape B0 n0 (fst (upsample_nearest3d B0 n0
     [VarITensor (tensor_of [1, 3, 4, 8, 8]), VarIValue (IIntList [4, 16, 16]), VarIValue INone,
      VarIValue INone, VarIValue INone] ctx0)) = Some [1, 3, 4, 16, 16]"
    using declared_output_shape
            [of B0 ctx0 "tensor_of [1, 3, 4, 8, 8]" "[1, 3, 4, 8, 8]" n0 7 "[]" "[4, 16, 16]"]
    by (simp add: concrete_defs)
qed

text \<open>
  The claim as first stated fails for the 1-D converter on the shape \<open>[1, 2, 3, 8]\<close> with
  output size \<open>[16]\<close>: the declared shape is \<open>[2, 3, 16]\<close>, not \<open>[1, 2, 3, 16]\<close>.
\<close>

theorem declared_output_shape_counterexample:
  "toVec (MAX_DIMS B0) (getDimensions (net ctx0) (tensor_of [1, 2, 3, 8])) = Inr [1, 2, 3, 8] \<and>
   output_shape B0 n0 (fst (upsample_nearest1d B0 n0
     [VarITensor (tensor_of [1, 2, 3, 8]), VarIValue (IIntList [16]), VarIValue INone] ctx0)) =
     Some [2, 3, 16] \<and>
   take (length [1, 2, 3, 8 :: int] - 1) [1, 2, 3, 8] @ [16] = [1, 2, 3, 16 :: int]"
proof -
  have s: "toVec (MAX_DIMS B0) (getDimensions (net ctx0) (tensor_of [1, 2, 3, 8])) =
             Inr [1, 2, 3, 8]"
    by (simp add: concrete_defs)
  have r: "upsample_nearest1d B0 n0
     [VarITensor (tensor_of [1, 2, 3, 8]), VarIValue (IIntList [16]), VarIValue INone] ctx0 =
     (ctx0\<lparr>net := net ctx0 @
            [shuffle_layer_of B0 n0 (tensor_of [1, 2, 3, 8]) (tl [1, 2, 3, 8]),
             resize_layer_of n0 (LayerOutput (length (net ctx0)) 0)
               (take (length [1, 2, 3, 8 :: int] - 2) (tl [1, 2, 3, 8]) @ [16])],
          value_tensor_map :=
            (7, LayerOutput (Suc (length (net ctx0))) 0) # value_tensor_map ctx0\<rparr>,
      Inr True)"
    by (rule run1d_big [OF s, where vs = "[]"]) (simp_all add: B0_def n0_def)
  have "output_shape B0 n0 (fst (upsample_nearest1d B0 n0
     [VarITensor (tensor_of [1, 2, 3, 8]), VarIValue (IIntList [16]), VarIValue INone] ctx0)) =
     Some [2, 3, 16]"
    unfolding r
    by (simp add: output_shape_def lookup_tensor_def resize_layer_of_def toVec_def valid_Dims_def
          B0_def n0_def ctx0_def)
  with s show ?thesis by simp
qed

subsection \<open>The rank of the registered output of the 1-D converter\<close>

text \<open>
  C9. For the 1-D converter on an input of backend-observed rank \<open>n \<ge> 4\<close>, on the
  layer-building path, the tensor registered as the node's output is output 0 of the
  resize layer, the resize layer is the last layer added, behind the shuffle layer, and
  the registered tensor has rank \<open>n - 1\<close>: the stripped dimension is not put back.
\<close>

theorem upsample_nearest1d_output_rank:
  assumes "toVec (MAX_DIMS B) (getDimensions (net ctx) t) = Inr S"
    and "4 \<le> length S" and "length os = 1"
    and "creates B kSHUFFLE (net ctx) t"
    and "creates B kRESIZE (net ctx @ [shuffle_layer_of B n t (tl S)])
           (LayerOutput (length (net ctx)) 0)"
    and "outputs n = v # vs"
  shows "\<exists>ctx' t' sh.
           upsample_nearest1d B n
             [VarITensor t, VarIValue (IIntList os), VarIValue INone] ctx = (ctx', Inr True) \<and>
           lookup_tensor ctx' v = Some t' \<and>
           nbDims (getDimensions (net ctx') t') = int (length S) - 1 \<and>
           net ctx' = net ctx @ [shuffle_layer_of B n t (tl S),
                         resize_layer_of n (LayerOutput (length (net ctx)) 0) sh] \<and>
           t' = LayerOutput (Suc (length (net ctx))) 0 \<and>
           length sh = length S - 1"
proof -
  let ?sh = "take (length S - 2) (tl S) @ os"
  let ?c = "ctx\<lparr>net := net ctx @
                [shuffle_layer_of B n t (tl S),
                 resize_layer_of n (LayerOutput (length (net ctx)) 0) ?sh],
              value_tensor_map :=
                (v, LayerOutput (Suc (length (net ctx))) 0) # value_tensor_map ctx\<rparr>"
  have r: "upsample_nearest1d B n
             [VarITensor t, VarIValue (IIntList os), VarIValue INone] ctx = (?c, Inr True)"
    using assms by (rule run1d_big)
  have l: "length ?sh = length S - 1" using assms(2,3) by auto
  have "lookup_tensor ?c v = Some (LayerOutput (Suc (length (net ctx))) 0)"
    by (simp add: lookup_tensor_def)
  moreover have "nbDims (getDimensions (net ?c) (LayerOutput (Suc (length (net ctx))) 0)) =
                   int (length S) - 1"
    using assms(2,3) by (auto simp: nth_append resize_layer_of_def)
  ultimately show ?thesis using r l by auto
qed

theorem upsample_nearest1d_output_rank_witness:
  "\<exists>ctx' t' sh.
     upsample_nearest1d B0 n0
       [VarITensor (tensor_of [1, 2, 3, 8]), VarIValue (IIntList [16]), VarIValue INone] ctx0 =
       (ctx', Inr True) \<and>
     lookup_tensor ctx' 7 = Some t' \<and>
     nbDims (getDimensions (net ctx') t') = 3 \<and>
     net ctx' = [shuffle_layer_of B0 n0 (tensor_of [1, 2, 3, 8]) [2, 3, 8],
                 resize_layer_of n0 (LayerOutput 0 0) sh] \<and>
     t' = LayerOutput 1 0 \<and> length sh = 3"
  using upsample_nearest1d_output_rank
          [of B0 ctx0 "tensor_of [1, 2, 3, 8]" "[1, 2, 3, 8]" "[16]" n0 7 "[]"]
  by (simp add: concrete_defs numeral_3_eq_3)


subsection \<open>The skipped scale-factor path\<close>

text \<open>
  C2, as the code has it. Let the operands be well-kinded (a tensor with a valid shape
  \<open>S\<close>, then literals) and let the parameter-mode precondition fail: the output size is
  absent or some scale operand is present. The 2-D and 3-D converters, and the 1-D
  converter when \<open>S\<close> has fewer than four entries, leave the context as it was (no layer,
  no association), raise nothing and return true. The 1-D converter on a shape of four
  entries or more has already added its shuffle layer when it tests the precondition: it
  leaves exactly that layer behind, adds no resize layer and no association, raises
  nothing and returns true.
\<close>

theorem precondition_fails_skip:
  assumes "toVec (MAX_DIMS B) (getDimensions (net ctx) t) = Inr S"
  shows
   "((a1 = INone \<or> a2 \<noteq> INone) \<and> length S < 4 \<longrightarrow>
       upsample_nearest1d B n [VarITensor t, VarIValue a1, VarIValue a2] ctx = (ctx, Inr True)) \<and>
    ((a1 = INone \<or> a2 \<noteq> INone) \<and> 4 \<le> length S \<and> creates B kSHUFFLE (net ctx) t \<longrightarrow>
       upsample_nearest1d B n [VarITensor t, VarIValue a1, VarIValue a2] ctx =
         (ctx\<lparr>net := net ctx @ [shuffle_layer_of B n t (tl S)]\<rparr>, Inr True)) \<and>
    (a1 = INone \<or> a2 \<noteq> INone \<or> a3 \<noteq> INone \<longrightarrow>
       upsample_nearest2d B n [VarITensor t, VarIValue a1, VarIValue a2, VarIValue a3] ctx =
         (ctx, Inr True)) \<and>
    (a1 = INone \<or> a2 \<noteq> INone \<or> a3 \<noteq> INone \<or> a4 \<noteq> INone \<longrightarrow>
       upsample_nearest3d B n
         [VarITensor t, VarIValue a1, VarIValue a2, VarIValue a3, VarIValue a4] ctx =
         (ctx, Inr True))"
  using assms
  by (auto simp: upsample_nearest1d_nf upsample_nearest2d_nf upsample_nearest3d_nf
                 explicit_args after_mode_def)

theorem precondition_fails_skip_witness:
  "upsample_nearest1d B0 n0
     [VarITensor (tensor_of [2, 3, 8]), VarIValue INone, VarIValue (IDouble 2)] ctx0 =
     (ctx0, Inr True) \<and>
   upsample_nearest1d B0 n0
     [VarITensor (tensor_of [1, 2, 3, 8]), VarIValue (IIntList [16]), VarIValue (IDouble 2)] ctx0 =
     (\<lparr>net = [shuffle_layer_of B0 n0 (tensor_of [1, 2, 3, 8]) [2, 3, 8]],
       value_tensor_map = []\<rparr>, Inr True) \<and>
   upsample_nearest2d B0 n0
     [VarITensor (tensor_of [1, 3, 32, 32]), VarIValue INone, VarIValue (IDouble 2),
      VarIValue INone] ctx0 = (ctx0, Inr True) \<and>
   upsample_nearest3d B0 n0
     [VarITensor (tensor_of [1, 3, 4, 8, 8]), VarIValue (IIntList [4, 16, 16]), VarIValue INone,
      VarIValue INone, VarIValue (IDouble 2)] ctx0 = (ctx0, Inr True)"
proof (intro conjI)
  show "upsample_nearest1d B0 n0
     [VarITensor (tensor_of [2, 3, 8]), VarIValue INone, VarIValue (IDouble 2)] ctx0 =
     (ctx0, Inr True)"
    using precondition_fails_skip
      [of B0 ctx0 "tensor_of [2, 3, 8]" "[2, 3, 8]" INone "IDouble 2" n0]
    by (simp add: concrete_defs)
  show "upsample_nearest1d B0 n0
     [VarITensor (tensor_of [1, 2, 3, 8]), VarIValue (IIntList [16]), VarIValue (IDouble 2)] ctx0 =
     (\<lparr>net = [shuffle_layer_of B0 n0 (tensor_of [1, 2, 3, 8]) [2, 3, 8]],
       value_tensor_map = []\<rparr>, Inr True)"
    using precondition_fails_skip
      [of B0 ctx0 "tensor_of [1, 2, 3, 8]" "[1, 2, 3, 8]" "IIntList [16]" "IDouble 2" n0]
    by (simp add: concrete_defs)
  show "upsample_nearest2d B0 n0
     [VarITensor (tensor_of [1, 3, 32, 32]), VarIValue INone, VarIValue (IDouble 2),
      VarIValue INone] ctx0 = (ctx0, Inr True)"
    using precondition_fails_skip
      [of B0 ctx0 "tensor_of [1, 3, 32, 32]" "[1, 3, 32, 32]" INone "IDouble 2" n0 INone]
    by (simp add: concrete_defs)
  show "upsample_nearest3d B0 n0
     [VarITensor (tensor_of [1, 3, 4, 8, 8]), VarIValue (IIntList [4, 16, 16]), VarIValue INone,
      VarIValue INone, VarIValue (IDouble 2)] ctx0 = (ctx0, Inr True)"
    using precondition_fails_skip
      [of B0 ctx0 "tensor_of [1, 3, 4, 8, 8]" "[1, 3, 4, 8, 8]" "IIntList [4, 16, 16]" INone n0
          INone "IDouble 2"]
    by (simp add: concrete_defs)
qed

text \<open>
  The claim as first stated fails for the 1-D converter on the shape \<open>[1, 2, 3, 8]\<close> with
  the output size absent: the network, empty before, holds a shuffle layer afterwards.
\<close>

theorem precondition_fails_skip_counterexample:
  "net (fst (upsample_nearest1d B0 n0
       [VarITensor (tensor_of [1, 2, 3, 8]), VarIValue INone, VarIValue INone] ctx0)) =
     [shuffle_layer_of B0 n0 (tensor_of [1, 2, 3, 8]) [2, 3, 8]] \<and>
   net ctx0 = []"
  by (simp add: upsample_nearest1d_nf explicit_args concrete_defs after_mode_def)

subsection \<open>The reshape of the 1-D converter\<close>




subsection \<open>No reshape in the 2-D and 3-D converters\<close>

text \<open>
  C6. For every backend, node, operand list and context, the 2-D and the 3-D converter
  add no shuffle layer: they add nothing, or one resize layer whose input is the tensor of
  operand 0 itself and whose declared shape is computed from that tensor's
  backend-observed shape.
\<close>

theorem no_reshape_2d_3d:
  "(\<exists>rest. net (fst (upsample_nearest2d B n args ctx)) = net ctx @ rest \<and>
           kSHUFFLE \<notin> ltype ` set rest \<and>
           (rest = [] \<or>
            (\<exists>t S os. bindE (args_at args 0) Var_ITensor = Inr t \<and>
                toVec (MAX_DIMS B) (getDimensions (net ctx) t) = Inr S \<and>
                bindE (args_at args 1) unwrapToIntList = Inr os \<and>
                rest = [resize_layer_of n t (take (length S - 2) S @ os)]))) \<and>
   (\<exists>rest. net (fst (upsample_nearest3d B n args ctx)) = net ctx @ rest \<and>
           kSHUFFLE \<notin> ltype ` set rest \<and>
           (rest = [] \<or>
            (\<exists>t S os. bindE (args_at args 0) Var_ITensor = Inr t \<and>
                toVec (MAX_DIMS B) (getDimensions (net ctx) t) = Inr S \<and>
                bindE (args_at args 1) unwrapToIntList = Inr os \<and>
                rest = [resize_layer_of n t (take (length S - 3) S @ os)])))"
proof -
  have gen: "\<exists>rest. net (fst (case bindE (args_at args 0) Var_ITensor of
                                Inl e \<Rightarrow> (ctx, Inl e)
                              | Inr t \<Rightarrow>
                                 (case toVec (MAX_DIMS B) (getDimensions (net ctx) t) of
                                    Inl e \<Rightarrow> (ctx, Inl e)
                                  | Inr S \<Rightarrow> after_mode R msg B n args t S ctx))) =
                     net ctx @ rest \<and>
           kSHUFFLE \<notin> ltype ` set rest \<and>
           (rest = [] \<or>
            (\<exists>t S os. bindE (args_at args 0) Var_ITensor = Inr t \<and>
                toVec (MAX_DIMS B) (getDimensions (net ctx) t) = Inr S \<and>
                bindE (args_at args 1) unwrapToIntList = Inr os \<and>
                rest = [resize_layer_of n t (take (length S - R) S @ os)]))" for R msg
  proof (cases "bindE (args_at args 0) Var_ITensor")
    case (Inl e)
    then show ?thesis by simp
  next
    case t: (Inr t)
    show ?thesis
    proof (cases "toVec (MAX_DIMS B) (getDimensions (net ctx) t)")
      case (Inl e)
      with t show ?thesis by simp
    next
      case S: (Inr S)
      have m: "length S \<le> MAX_DIMS B" using S by (rule toVec_length)
      from after_mode_layers [OF m, of R msg n args t ctx]
      obtain rest where
        rest: "net (fst (after_mode R msg B n args t S ctx)) = net ctx @ rest"
          "rest = [] \<or>
           (\<exists>os. bindE (args_at args 1) unwrapToIntList = Inr os \<and>
              rest = [resize_layer_of n t (take (length S - R) S @ os)])"
        by auto
      from rest(2) have "kSHUFFLE \<notin> ltype ` set rest"
        by (auto simp: resize_layer_of_def)
      with rest t S show ?thesis by auto
    qed
  qed
  show ?thesis
    unfolding upsample_nearest2d_nf upsample_nearest3d_nf
    by (intro conjI gen)
qed

theorem no_reshape_2d_3d_witness:
  "net (fst (upsample_nearest2d B0 n0
       [VarITensor (tensor_of [1, 3, 32, 32]), VarIValue (IIntList [64, 64]), VarIValue INone,
        VarIValue INone] ctx0)) = [resize_layer_of n0 (tensor_of [1, 3, 32, 32]) [1, 3, 64, 64]] \<and>
   net (fst (upsample_nearest3d B0 n0
       [VarITensor (tensor_of [1, 3, 4, 8, 8]), VarIValue (IIntList [4, 16, 16]), VarIValue INone,
        VarIValue INone, VarIValue INone] ctx0)) =
     [resize_layer_of n0 (tensor_of [1, 3, 4, 8, 8]) [1, 3, 4, 16, 16]]"
proof -
  let ?a2 = "[VarITensor (tensor_of [1, 3, 32, 32]), VarIValue (IIntList [64, 64]), VarIValue INone,
        VarIValue INone]"
  let ?a3 = "[VarITensor (tensor_of [1, 3, 4, 8, 8]), VarIValue (IIntList [4, 16, 16]), VarIValue INone,
        VarIValue INone, VarIValue INone]"
  have n2: "net (fst (upsample_nearest2d B0 n0 ?a2 ctx0)) \<noteq> []"
    by (simp add: upsample_nearest2d_nf explicit_args concrete_defs after_mode_def build_resize_nf)
  have n3: "net (fst (upsample_nearest3d B0 n0 ?a3 ctx0)) \<noteq> []"
    by (simp add: upsample_nearest3d_nf explicit_args concrete_defs after_mode_def build_resize_nf)
  from no_reshape_2d_3d [of B0 n0 ?a2 ctx0, THEN conjunct1] n2
  have "net (fst (upsample_nearest2d B0 n0 ?a2 ctx0)) =
          [resize_layer_of n0 (tensor_of [1, 3, 32, 32]) [1, 3, 64, 64]]"
    by (auto simp: explicit_args concrete_defs)
  moreover
  from no_reshape_2d_3d [of B0 n0 ?a3 ctx0, THEN conjunct2] n3
  have "net (fst (upsample_nearest3d B0 n0 ?a3 ctx0)) =
          [resize_layer_of n0 (tensor_of [1, 3, 4, 8, 8]) [1, 3, 4, 16, 16]]"
    by (auto simp: explicit_args concrete_defs)
  ultimately show ?thesis by simp
qed

subsection \<open>The size check\<close>




subsection \<open>The unguarded copy\<close>

text \<open>
  C10. The output size is copied into the shape at offset (rank - \<open>R\<close>). When the source
  is no longer than the destination the copy stays inside it and overwrites its tail, so
  a converter whose input (for the 1-D converter after the reshape) has rank at least
  \<open>R\<close> never runs into the out-of-range copy, whatever its other operands are. Nothing
  checks the rank before the copy: on the layer-building path with an input of rank
  below \<open>R\<close> each converter reaches the copy and the copy writes out of range.
\<close>

theorem copy_offset_unguarded:
  assumes "toVec (MAX_DIMS B) (getDimensions (net ctx) t) = Inr S"
  shows
   "(length src \<le> length dst \<longrightarrow>
       std_copy src dst (size_sub (length dst) (length src)) =
         Inr (take (length dst - length src) dst @ src)) \<and>
    (1 \<le> length S \<longrightarrow>
       snd (upsample_nearest1d B n (VarITensor t # as) ctx) \<noteq> Inl CopyOverrun) \<and>
    (2 \<le> length S \<longrightarrow>
       snd (upsample_nearest2d B n (VarITensor t # as) ctx) \<noteq> Inl CopyOverrun) \<and>
    (3 \<le> length S \<longrightarrow>
       snd (upsample_nearest3d B n (VarITensor t # as) ctx) \<noteq> Inl CopyOverrun) \<and>
    (length os = 1 \<and> length os \<le> MAX_DIMS B \<and> length S < 1 \<longrightarrow>
       upsample_nearest1d B n [VarITensor t, VarIValue (IIntList os), VarIValue INone] ctx =
         (ctx, Inl CopyOverrun)) \<and>
    (length os = 2 \<and> length os \<le> MAX_DIMS B \<and> length S < 2 \<longrightarrow>
       upsample_nearest2d B n
         [VarITensor t, VarIValue (IIntList os), VarIValue INone, VarIValue INone] ctx =
         (ctx, Inl CopyOverrun)) \<and>
    (length os = 3 \<and> length os \<le> MAX_DIMS B \<and> length S < 3 \<longrightarrow>
       upsample_nearest3d B n
         [VarITensor t, VarIValue (IIntList os), VarIValue INone, VarIValue INone,
          VarIValue INone] ctx =
         (ctx, Inl CopyOverrun))"
proof -
  have ok: "snd (after_mode R msg B n args in1 in_shape c) \<noteq> Inl CopyOverrun"
    if "R \<le> length in_shape" and "case1 R args \<noteq> Inl CopyOverrun" for R msg args in1 in_shape c
    using that
    by (auto simp: after_mode_def build_resize_nf unwrapToIntList_def args_at_def bindE_def
             split: sum.splits list.splits if_splits Var.splits IValue.splits)
  have c1: "case1 R args \<noteq> Inl CopyOverrun" for R args
    by (auto simp: case1_def bindE_def scales_absent_no_overrun args_at_def Var_IValue_def
             split: sum.splits if_splits Var.splits)
  have S: "length S \<le> MAX_DIMS B" using assms by (rule toVec_length)
  show ?thesis
  proof (intro conjI impI)
    assume "length src \<le> length dst"
    then show "std_copy src dst (size_sub (length dst) (length src)) =
                 Inr (take (length dst - length src) dst @ src)"
      by (simp add: std_copy_tail)
  next
    assume h: "1 \<le> length S"
    then have "1 \<le> length (tl S)" if "4 \<le> length S" using that by simp
    with h show "snd (upsample_nearest1d B n (VarITensor t # as) ctx) \<noteq> Inl CopyOverrun"
      using assms by (simp add: upsample_nearest1d_nf arg0_tensor ok c1)
  next
    assume "2 \<le> length S"
    then show "snd (upsample_nearest2d B n (VarITensor t # as) ctx) \<noteq> Inl CopyOverrun"
      using assms by (simp add: upsample_nearest2d_nf arg0_tensor ok c1)
  next
    assume "3 \<le> length S"
    then show "snd (upsample_nearest3d B n (VarITensor t # as) ctx) \<noteq> Inl CopyOverrun"
      using assms by (simp add: upsample_nearest3d_nf arg0_tensor ok c1)
  next
    assume "length os = 1 \<and> length os \<le> MAX_DIMS B \<and> length S < 1"
    then show "upsample_nearest1d B n
        [VarITensor t, VarIValue (IIntList os), VarIValue INone] ctx = (ctx, Inl CopyOverrun)"
      using assms
      by (simp add: upsample_nearest1d_nf explicit_args after_mode_def build_resize_nf)
  next
    assume "length os = 2 \<and> length os \<le> MAX_DIMS B \<and> length S < 2"
    then show "upsample_nearest2d B n
        [VarITensor t, VarIValue (IIntList os), VarIValue INone, VarIValue INone] ctx =
        (ctx, Inl CopyOverrun)"
      using assms
      by (simp add: upsample_nearest2d_nf explicit_args after_mode_def build_resize_nf)
  next
    assume "length os = 3 \<and> length os \<le> MAX_DIMS B \<and> length S < 3"
    then show "upsample_nearest3d B n
        [VarITensor t, VarIValue (IIntList os), VarIValue INone, VarIValue INone,
         VarIValue INone] ctx = (ctx, Inl CopyOverrun)"
      using assms
      by (simp add: upsample_nearest3d_nf explicit_args after_mode_def build_resize_nf)
  qed
qed

theorem copy_offset_unguarded_witness:
  "std_copy [16] [2, 3, 8] (size_sub (length [2, 3, 8 :: int]) (length [16 :: int])) =
     Inr [2, 3, 16] \<and>
   snd (upsample_nearest1d B0 n0
          (VarITensor (tensor_of [1, 2, 3, 8]) # [VarIValue (IIntList [16]), VarIValue INone])
          ctx0) \<noteq> Inl CopyOverrun \<and>
   snd (upsample_nearest2d B0 n0
          (VarITensor (tensor_of [1, 3, 32, 32]) #
           [VarIValue (IIntList [64, 64]), VarIValue INone, VarIValue INone])
          ctx0) \<noteq> Inl CopyOverrun \<and>
   snd (upsample_nearest3d B0 n0
          (VarITensor (tensor_of [1, 3, 4, 8, 8]) #
           [VarIValue (IIntList [4, 16, 16]), VarIValue INone, VarIValue INone, VarIValue INone])
          ctx0) \<noteq> Inl CopyOverrun \<and>
   upsample_nearest1d B0 n0
     [VarITensor (tensor_of []), VarIValue (IIntList [16]), VarIValue INone] ctx0 =
     (ctx0, Inl CopyOverrun) \<and>
   upsample_nearest2d B0 n0
     [VarITensor (tensor_of [8]), VarIValue (IIntList [64, 64]), VarIValue INone,
      VarIValue INone] ctx0 = (ctx0, Inl CopyOverrun) \<and>
   upsample_nearest3d B0 n0
     [VarITensor (tensor_of [8, 8]), VarIValue (IIntList [4, 16, 16]), VarIValue INone,
      VarIValue INone, VarIValue INone] ctx0 = (ctx0, Inl CopyOverrun)"
proof (intro conjI)
  show "std_copy [16] [2, 3, 8] (size_sub (length [2, 3, 8 :: int]) (length [16 :: int])) =
     Inr [2, 3, 16]"
    using copy_offset_unguarded
      [of B0 ctx0 "tensor_of [2, 3, 8]" "[2, 3, 8]" "[16]" "[2, 3, 8]"]
    by (simp add: concrete_defs)
  show "snd (upsample_nearest1d B0 n0
          (VarITensor (tensor_of [1, 2, 3, 8]) # [VarIValue (IIntList [16]), VarIValue INone])
          ctx0) \<noteq> Inl CopyOverrun"
    using copy_offset_unguarded
      [of B0 ctx0 "tensor_of [1, 2, 3, 8]" "[1, 2, 3, 8]" "[]" "[]" n0
          "[VarIValue (IIntList [16]), VarIValue INone]"]
    by (simp add: concrete_defs)
  show "snd (upsample_nearest2d B0 n0
          (VarITensor (tensor_of [1, 3, 32, 32]) #
           [VarIValue (IIntList [64, 64]), VarIValue INone, VarIValue INone])
          ctx0) \<noteq> Inl CopyOverrun"
    using copy_offset_unguarded
      [of B0 ctx0 "tensor_of [1, 3, 32, 32]" "[1, 3, 32, 32]" "[]" "[]" n0
          "[VarIValue (IIntList [64, 64]), VarIValue INone, VarIValue INone]"]
    by (simp add: concrete_defs)
  show "snd (upsample_nearest3d B0 n0
          (VarITensor (tensor_of [1, 3, 4, 8, 8]) #
           [VarIValue (IIntList [4, 16, 16]), VarIValue INone, VarIValue INone, VarIValue INone])
          ctx0) \<noteq> Inl CopyOverrun"
    using copy_offset_unguarded
      [of B0 ctx0 "tensor_of [1, 3, 4, 8, 8]" "[1, 3, 4, 8, 8]" "[]" "[]" n0
          "[VarIValue (IIntList [4, 16, 16]), VarIValue INone, VarIValue INone, VarIValue INone]"]
    by (simp add: concrete_defs)
  show "upsample_nearest1d B0 n0
     [VarITensor (tensor_of []), VarIValue (IIntList [16]), VarIValue INone] ctx0 =
     (ctx0, Inl CopyOverrun)"
    using copy_offset_unguarded
      [of B0 ctx0 "tensor_of []" "[]" "[]" "[]" n0 "[]" "[16]"]
    by (simp add: concrete_defs)
  show "upsample_nearest2d B0 n0
     [VarITensor (tensor_of [8]), VarIValue (IIntList [64, 64]), VarIValue INone,
      VarIValue INone] ctx0 = (ctx0, Inl CopyOverrun)"
    using copy_offset_unguarded
      [of B0 ctx0 "tensor_of [8]" "[8]" "[]" "[]" n0 "[]" "[64, 64]"]
    by (simp add: concrete_defs)
  show "upsample_nearest3d B0 n0
     [VarITensor (tensor_of [8, 8]), VarIValue (IIntList [4, 16, 16]), VarIValue INone,
      VarIValue INone, VarIValue INone] ctx0 = (ctx0, Inl CopyOverrun)"
    using copy_offset_unguarded
      [of B0 ctx0 "tensor_of [8, 8]" "[8, 8]" "[]" "[]" n0 "[]" "[4, 16, 16]"]
    by (simp add: concrete_defs)
qed


end
